theory Spec2Isabelle
  imports Main
begin

section \<open>Errors and panics\<close>

text \<open>
  Go errors are values. Each constructor below is one way an error value is built in
  \<^verbatim>\<open>main.go\<close>; the comment gives the format string. Errors that come from the
  standard library or from a child process carry their text.
\<close>

datatype error =
    ExecError string                 \<comment> \<open>\<^verbatim>\<open>cmd.Run()\<close> or \<^verbatim>\<open>gh.ExecContext\<close> failed\<close>
  | LookPathError string             \<comment> \<open>\<^verbatim>\<open>safeexec.LookPath\<close> failed\<close>
  | JsonError string                 \<comment> \<open>\<^verbatim>\<open>json.Unmarshal\<close> failed\<close>
  | ErrSyntax string                 \<comment> \<open>\<^verbatim>\<open>strconv.Atoi\<close>: invalid syntax\<close>
  | ErrRange string                  \<comment> \<open>\<^verbatim>\<open>strconv.Atoi\<close>: value out of range\<close>
  | ErrNoDependOn                    \<comment> \<open>"no dependencies found"\<close>
  | NotInteger error                 \<comment> \<open>"pull request number is not integer: %w"\<close>
  | MultipleDependencies "int list"  \<comment> \<open>"multiple dependencies found: %v"\<close>
  | FailedToGet int error            \<comment> \<open>"failed to get depended PR #%d: %w"\<close>
  | NotMerged int                    \<comment> \<open>"depended PR #%d is not merged"\<close>
  | FailedToCheckout int error       \<comment> \<open>"failed to checkout to depended PR #%d: %w"\<close>
  | FailedToRebase int error         \<comment> \<open>"failed to rebase depended PR #%d: %w"\<close>
  | Conflicted string string string  \<comment> \<open>"conflicted while rebasing %s onto %s (old parent: %s)"\<close>
  | StderrWrap string error          \<comment> \<open>"%s: %w" of the error stream and the run error\<close>

datatype panic =
    PanicError error                 \<comment> \<open>\<^verbatim>\<open>panic(err)\<close>\<close>
  | NilDereference                   \<comment> \<open>field read through a nil pointer\<close>
  | SliceBounds nat nat              \<comment> \<open>slice bounds out of range [:n] with length l\<close>

section \<open>Dependency annotation parser\<close>

subsection \<open>Character classes of the pattern\<close>

text \<open>
  A Go string is a sequence of bytes, as \<^typ>\<open>string\<close> is. The pattern is
  \<^verbatim>\<open>(?i)depend(?:s|ed|ing)?\s+on:\s+#(\d+)\<close>. In Go's syntax \<^verbatim>\<open>\s\<close> is
  \<^verbatim>\<open>[\t\n\f\r ]\<close> and \<^verbatim>\<open>\d\<close> is \<^verbatim>\<open>[0-9]\<close>.
\<close>

definition is_space :: "char \<Rightarrow> bool" where
  "is_space c = (c \<in> {CHR 0x09, CHR 0x0A, CHR 0x0C, CHR 0x0D, CHR 0x20})"

definition is_digit :: "char \<Rightarrow> bool" where
  "is_digit c = (c \<in> set ''0123456789'')"

definition upper :: "char \<Rightarrow> char" where
  "upper c = (if c \<in> set ''abcdefghijklmnopqrstuvwxyz''
              then char_of (of_char c - (32::nat)) else c)"

text \<open>Under \<^verbatim>\<open>(?i)\<close> a literal letter matches itself and its other case.\<close>

definition ci_eq :: "char \<Rightarrow> char \<Rightarrow> bool" where
  "ci_eq p c = (c = p \<or> c = upper p)"

subsection \<open>Matchers\<close>

text \<open>
  A matcher maps the input to the list of what may be left after it, in the order in
  which Go's leftmost-first matcher prefers them; the empty list is a failure. A literal
  has at most one way to match.
\<close>

fun lit :: "string \<Rightarrow> string \<Rightarrow> string list" where
  "lit [] s = [s]"
| "lit (p # ps) [] = []"
| "lit (p # ps) (c # cs) = (if c = p then lit ps cs else [])"

fun lit_ci :: "string \<Rightarrow> string \<Rightarrow> string list" where
  "lit_ci [] s = [s]"
| "lit_ci (p # ps) [] = []"
| "lit_ci (p # ps) (c # cs) = (if ci_eq p c then lit_ci ps cs else [])"

text \<open>
  The letter \<^verbatim>\<open>s\<close> has a third member in its case-folding orbit, U+017F (LATIN SMALL
  LETTER LONG S), which is the two bytes C5 BF in UTF-8; Go's matcher follows
  \<^verbatim>\<open>unicode.SimpleFold\<close>, so the alternative \<^verbatim>\<open>s\<close> accepts it too.
\<close>

definition lit_s :: "string \<Rightarrow> string list" where
  "lit_s s = lit_ci ''s'' s @ lit [CHR 0xC5, CHR 0xBF] s"

text \<open>A greedy repetition of a character class prefers the longer match.\<close>

fun rep_star :: "(char \<Rightarrow> bool) \<Rightarrow> string \<Rightarrow> string list" where
  "rep_star P [] = [[]]"
| "rep_star P (c # cs) = (if P c then rep_star P cs else []) @ [c # cs]"

fun rep_plus :: "(char \<Rightarrow> bool) \<Rightarrow> string \<Rightarrow> string list" where
  "rep_plus P [] = []"
| "rep_plus P (c # cs) = (if P c then rep_star P cs else [])"

text \<open>The text of a group, from the input at its start and at its end.\<close>

definition capture :: "string \<Rightarrow> string \<Rightarrow> string \<times> string" where
  "capture s r = (take (length s - length r) s, r)"

subsection \<open>The pattern\<close>

text \<open>
  \<^verbatim>\<open>(?:s|ed|ing)?\<close>: the alternatives in the order written, then the empty match.
\<close>

definition suffix_alts :: "string \<Rightarrow> string list" where
  "suffix_alts s = lit_s s @ lit_ci ''ed'' s @ lit_ci ''ing'' s @ [s]"

text \<open>\<^verbatim>\<open>\s+on:\s+#(\d+)\<close>: every way to match, with the capture and what is left.\<close>

definition match_tail :: "string \<Rightarrow> (string \<times> string) list" where
  "match_tail s =
     List.bind (rep_plus is_space s) (\<lambda>s1.
     List.bind (lit_ci ''on:'' s1) (\<lambda>s2.
     List.bind (rep_plus is_space s2) (\<lambda>s3.
     List.bind (lit_ci ''#'' s3) (\<lambda>s4.
     map (capture s4) (rep_plus is_digit s4)))))"

definition match_from :: "string \<Rightarrow> (string \<times> string) list" where
  "match_from s =
     List.bind (lit_ci ''depend'' s) (\<lambda>s1.
     List.bind (suffix_alts s1) match_tail)"

text \<open>The match that starts at the head of the input is the preferred one.\<close>

definition match_here :: "string \<Rightarrow> (string \<times> string) option" where
  "match_here s = (case match_from s of [] \<Rightarrow> None | m # ms \<Rightarrow> Some m)"

text \<open>
  Every matcher leaves a suffix of its input. A match of the pattern captures a
  non-empty string of digits, leaves less than the input, and contains a colon.
\<close>

lemma lit_ci_suffix: "r \<in> set (lit_ci p s) \<Longrightarrow> \<exists>pre. s = pre @ r \<and> length pre = length p"
proof (induction p s rule: lit_ci.induct)
  case (1 s)
  then show ?case by simp
next
  case (2 p ps)
  then show ?case by simp
next
  case (3 p ps c cs)
  then obtain pre where "cs = pre @ r" "length pre = length ps"
    by (auto split: if_splits)
  then show ?case by (intro exI [of _ "c # pre"]) simp
qed

lemma lit_suffix: "r \<in> set (lit p s) \<Longrightarrow> \<exists>pre. s = pre @ r \<and> length pre = length p"
proof (induction p s rule: lit.induct)
  case (1 s)
  then show ?case by simp
next
  case (2 p ps)
  then show ?case by simp
next
  case (3 p ps c cs)
  then obtain pre where "cs = pre @ r" "length pre = length ps"
    by (auto split: if_splits)
  then show ?case by (intro exI [of _ "c # pre"]) simp
qed

lemma lit_s_suffix: "r \<in> set (lit_s s) \<Longrightarrow> \<exists>pre. s = pre @ r"
  using lit_ci_suffix [of r "''s''" s] lit_suffix [of r "[CHR 0xC5, CHR 0xBF]" s]
  by (auto simp: lit_s_def)

lemma rep_star_suffix: "r \<in> set (rep_star P s) \<Longrightarrow> \<exists>pre. s = pre @ r \<and> list_all P pre"
proof (induction s)
  case Nil
  then show ?case by simp
next
  case (Cons c cs)
  show ?case
  proof (cases "r = c # cs")
    case True
    then show ?thesis by (intro exI [of _ "[]"]) simp
  next
    case False
    with Cons.prems have "P c" "r \<in> set (rep_star P cs)" by (auto split: if_splits)
    with Cons.IH obtain pre where "cs = pre @ r" "list_all P pre" by blast
    with \<open>P c\<close> show ?thesis by (intro exI [of _ "c # pre"]) simp
  qed
qed

lemma rep_plus_suffix: "r \<in> set (rep_plus P s) \<Longrightarrow> \<exists>pre. s = pre @ r \<and> pre \<noteq> [] \<and> list_all P pre"
proof (cases s)
  case Nil
  assume "r \<in> set (rep_plus P s)"
  with Nil show ?thesis by simp
next
  case (Cons c cs)
  assume "r \<in> set (rep_plus P s)"
  with Cons have "P c" "r \<in> set (rep_star P cs)" by (auto split: if_splits)
  then obtain pre where "cs = pre @ r" "list_all P pre" using rep_star_suffix by blast
  with Cons \<open>P c\<close> show ?thesis by (intro exI [of _ "c # pre"]) simp
qed

lemma lit_ci_on_colon:
  assumes "r \<in> set (lit_ci ''on:'' s)"
  shows "CHR '':'' \<in> set s"
proof -
  from assms obtain c1 s1 where s: "s = c1 # s1" and 1: "r \<in> set (lit_ci ''n:'' s1)"
    by (cases s) (auto split: if_splits)
  from 1 obtain c2 s2 where s1: "s1 = c2 # s2" and 2: "r \<in> set (lit_ci '':'' s2)"
    by (cases s1) (auto split: if_splits)
  from 2 obtain c3 s3 where s2: "s2 = c3 # s3" and 3: "ci_eq CHR '':'' c3"
    by (cases s2) (auto split: if_splits)
  from 3 have "c3 = CHR '':''" by (simp add: ci_eq_def upper_def)
  with s s1 s2 show ?thesis by simp
qed

lemma match_tail_result:
  assumes "(d, r) \<in> set (match_tail s)"
  shows "d \<noteq> [] \<and> list_all is_digit d \<and> length r < length s \<and> CHR '':'' \<in> set s"
proof -
  from assms obtain s1 s2 s3 s4 r' where
    1: "s1 \<in> set (rep_plus is_space s)" and
    2: "s2 \<in> set (lit_ci ''on:'' s1)" and
    3: "s3 \<in> set (rep_plus is_space s2)" and
    4: "s4 \<in> set (lit_ci ''#'' s3)" and
    5: "r' \<in> set (rep_plus is_digit s4)" and
    dr: "(d, r) = capture s4 r'"
    unfolding match_tail_def set_list_bind by fastforce
  from 5 obtain pre where pre: "s4 = pre @ r'" "pre \<noteq> []" "list_all is_digit pre"
    using rep_plus_suffix by blast
  with dr have d: "d = pre" and r: "r = r'" by (auto simp: capture_def)
  from 1 obtain p1 where p1: "s = p1 @ s1" using rep_plus_suffix by blast
  from 2 obtain p2 where p2: "s1 = p2 @ s2" using lit_ci_suffix by blast
  from 3 obtain p3 where p3: "s2 = p3 @ s3" using rep_plus_suffix by blast
  from 4 obtain p4 where p4: "s3 = p4 @ s4" using lit_ci_suffix by blast
  from lit_ci_on_colon [OF 2] p1 have colon: "CHR '':'' \<in> set s" by simp
  have "length r < length s"
    using p1 p2 p3 p4 pre r by simp
  with d pre colon show ?thesis by simp
qed

lemma suffix_alts_suffix: "r \<in> set (suffix_alts s) \<Longrightarrow> \<exists>pre. s = pre @ r"
  using lit_s_suffix [of r s] lit_ci_suffix [of r _ s]
  by (auto simp: suffix_alts_def)

lemma match_from_result:
  assumes "(d, r) \<in> set (match_from s)"
  shows "d \<noteq> [] \<and> list_all is_digit d \<and> length r < length s \<and> CHR '':'' \<in> set s"
proof -
  from assms obtain s1 s2 where
    1: "s1 \<in> set (lit_ci ''depend'' s)" and
    2: "s2 \<in> set (suffix_alts s1)" and
    3: "(d, r) \<in> set (match_tail s2)"
    unfolding match_from_def set_list_bind by fastforce
  from 1 obtain p1 where p1: "s = p1 @ s1" using lit_ci_suffix by blast
  from 2 obtain p2 where p2: "s1 = p2 @ s2" using suffix_alts_suffix by blast
  from match_tail_result [OF 3] p1 p2 show ?thesis by simp
qed

lemma match_here_result:
  "match_here s = Some (d, r) \<Longrightarrow>
   d \<noteq> [] \<and> list_all is_digit d \<and> length r < length s \<and> CHR '':'' \<in> set s"
  using match_from_result [of d r s]
  by (auto simp: match_here_def split: list.splits)

text \<open>
  \<^verbatim>\<open>FindAllStringSubmatch(body, -1)\<close>, reduced to the first capture group of each
  match: the matches are found left to right and do not overlap.
\<close>

function find_all :: "string \<Rightarrow> string list" where
  "find_all [] = []"
| "find_all (c # cs) =
     (case match_here (c # cs) of
        Some (d, r) \<Rightarrow> d # find_all r
      | None \<Rightarrow> find_all cs)"
  by pat_completeness auto
termination
  by (relation "measure length") (auto dest: match_here_result)

subsection \<open>Conversion of the captures\<close>

text \<open>
  \<^verbatim>\<open>strconv.Atoi\<close> on a 64-bit platform: an optional sign, then decimal digits; a
  value outside the range of \<^verbatim>\<open>int\<close> is a range error.
\<close>

definition digit_val :: "char \<Rightarrow> int" where
  "digit_val c = of_char c - 48"

definition decimal :: "string \<Rightarrow> int" where
  "decimal ds = foldl (\<lambda>n c. 10 * n + digit_val c) 0 ds"

definition Atoi :: "string \<Rightarrow> error + int" where
  "Atoi s =
     (let neg = (take 1 s = ''-'');
          ds = (if take 1 s = ''-'' \<or> take 1 s = ''+'' then drop 1 s else s)
      in if ds = [] then Inl (ErrSyntax s)
         else if list_ex (\<lambda>c. \<not> is_digit c) ds then Inl (ErrSyntax s)
         else if neg then
           (if 2 ^ 63 < decimal ds then Inl (ErrRange s) else Inr (- decimal ds))
         else
           (if 2 ^ 63 \<le> decimal ds then Inl (ErrRange s) else Inr (decimal ds)))"

text \<open>
  Lines 113 to 123 of \<^verbatim>\<open>main.go\<close>: every capture is converted and appended to
  \<^verbatim>\<open>dependOns\<close>; a conversion error panics.
\<close>

fun convert_matches :: "int list \<Rightarrow> string list \<Rightarrow> panic + int list" where
  "convert_matches dependOns [] = Inr dependOns"
| "convert_matches dependOns (m # ms) =
     (case Atoi m of
        Inl e \<Rightarrow> Inl (PanicError e)
      | Inr i \<Rightarrow> convert_matches (dependOns @ [i]) ms)"

definition extract_dependOns :: "string \<Rightarrow> panic + int list" where
  "extract_dependOns body = convert_matches [] (find_all body)"


section \<open>Data model\<close>

record PullRequest =
  BaseRefName :: string
  HeadRefName :: string
  Body :: string
  IsDraft :: bool
  Number :: int
  Title :: string
  URL :: string
  State :: string
  MergeCommit_Oid :: string   \<comment> \<open>\<^verbatim>\<open>MergeCommit.Oid\<close>; empty when the JSON has no merge commit\<close>

text \<open>
  \<^verbatim>\<open>ProcessedPullRequest\<close> embeds the request. \<^verbatim>\<open>DependedPullRequest\<close> is a pointer
  and \<^verbatim>\<open>Error\<close> an interface value: \<^const>\<open>None\<close> is nil. A nil slice and an empty
  slice are both \<^term>\<open>[]\<close>.
\<close>

record ProcessedPullRequest =
  PullRequest :: PullRequest
  DependOns :: "int list"
  DependedPullRequest :: "PullRequest option"
  Error :: "error option"

section \<open>External tools\<close>

text \<open>
  The child processes the program starts. The constructor stands for the argument vector:
  \<^item> \<open>GitStatus\<close>: \<^verbatim>\<open>git status --porcelain\<close>
  \<^item> \<open>GhRepoView\<close>: \<^verbatim>\<open>gh repo view --json defaultBranchRef\<close>
  \<^item> \<open>GitFetchOrigin b\<close>: \<^verbatim>\<open>git fetch origin b\<close>
  \<^item> \<open>GhPrList\<close>: \<^verbatim>\<open>gh pr list --author @me --state open --json ...\<close>
  \<^item> \<open>GhPrView n\<close>: \<^verbatim>\<open>gh pr view n --json ...\<close>
  \<^item> \<open>GhPrCheckout n\<close>: \<^verbatim>\<open>gh pr checkout n\<close>
  \<^item> \<open>GitRebaseOnto t p b\<close>: \<^verbatim>\<open>git rebase --onto t p b\<close>
  \<^item> \<open>GitRebaseAbort\<close>: \<^verbatim>\<open>git rebase --abort\<close>
\<close>

datatype cmd =
    GitStatus
  | GhRepoView
  | GitFetchOrigin string
  | GhPrList
  | GhPrView int
  | GhPrCheckout int
  | GitRebaseOnto string string string
  | GitRebaseAbort

text \<open>The commands that change the working copy.\<close>

definition mutates :: "cmd \<Rightarrow> bool" where
  "mutates c =
     (case c of
        GhPrCheckout number \<Rightarrow> True
      | GitRebaseOnto targetBase oldParent topicBranch \<Rightarrow> True
      | GitRebaseAbort \<Rightarrow> True
      | _ \<Rightarrow> False)"

text \<open>What a finished child process leaves: both streams and the error of the run
  (\<^const>\<open>None\<close> when the process started and exited with code zero).\<close>

record proc =
  Stdout :: string
  Stderr :: string
  RunErr :: "error option"

text \<open>
  The environment answers every invocation; the answer may depend on everything invoked
  before (the trace), which covers a cancelled context as well. The trace lists the
  commands the program has tried to run, in order; when the tool is not found, nothing is
  run. The environment also holds \<^verbatim>\<open>safeexec.LookPath\<close> and the three uses of
  \<^verbatim>\<open>json.Unmarshal\<close>, which the program takes from libraries.
\<close>

record world =
  LookPath :: "cmd list \<Rightarrow> string \<Rightarrow> error + string"
  Run :: "cmd list \<Rightarrow> cmd \<Rightarrow> proc"
  Unmarshal_defaultBranch :: "string \<Rightarrow> error + string"
  Unmarshal_PullRequests :: "string \<Rightarrow> error + PullRequest list"
  Unmarshal_PullRequest :: "string \<Rightarrow> error + PullRequest"

definition run :: "world \<Rightarrow> cmd \<Rightarrow> cmd list \<Rightarrow> proc \<times> cmd list" where
  "run w c tr = (Run w tr c, tr @ [c])"

section \<open>Operations\<close>

subsection \<open>Review-platform queries\<close>

text \<open>
  Each returns the pair of the Go function. In the branch for a non-empty error stream
  the source returns the variable \<^verbatim>\<open>err\<close>, which holds the error of the run.
\<close>

definition GetDefaultBranch :: "world \<Rightarrow> cmd list \<Rightarrow> (string \<times> error option) \<times> cmd list" where
  "GetDefaultBranch w tr =
     (let (p, tr1) = run w GhRepoView tr; err = RunErr p
      in if err \<noteq> None then (([], err), tr1)
         else if length (Stderr p) > 0 then (([], err), tr1)
         else (case Unmarshal_defaultBranch w (Stdout p) of
                 Inl e \<Rightarrow> (([], Some e), tr1)
               | Inr name \<Rightarrow> ((name, None), tr1)))"

definition ListPullRequests ::
  "world \<Rightarrow> cmd list \<Rightarrow> (PullRequest list \<times> error option) \<times> cmd list" where
  "ListPullRequests w tr =
     (let (p, tr1) = run w GhPrList tr; err = RunErr p
      in if err \<noteq> None then (([], err), tr1)
         else if length (Stderr p) > 0 then (([], err), tr1)
         else (case Unmarshal_PullRequests w (Stdout p) of
                 Inl e \<Rightarrow> (([], Some e), tr1)
               | Inr pullRequests \<Rightarrow> ((pullRequests, None), tr1)))"

definition GetPullRequest ::
  "world \<Rightarrow> int \<Rightarrow> cmd list \<Rightarrow> (PullRequest option \<times> error option) \<times> cmd list" where
  "GetPullRequest w number tr =
     (let (p, tr1) = run w (GhPrView number) tr; err = RunErr p
      in if err \<noteq> None then ((None, err), tr1)
         else if length (Stderr p) > 0 then ((None, err), tr1)
         else (case Unmarshal_PullRequest w (Stdout p) of
                 Inl e \<Rightarrow> ((None, Some e), tr1)
               | Inr pullRequest \<Rightarrow> ((Some pullRequest, None), tr1)))"

subsection \<open>Version control\<close>

definition IsCurrentBranchDirty :: "world \<Rightarrow> cmd list \<Rightarrow> (bool \<times> error option) \<times> cmd list" where
  "IsCurrentBranchDirty w tr =
     (case LookPath w tr ''git'' of
        Inl e \<Rightarrow> ((False, Some e), tr)
      | Inr gitPath \<Rightarrow>
          (let (p, tr1) = run w GitStatus tr
           in case RunErr p of
                Some e \<Rightarrow> ((False, Some e), tr1)
              | None \<Rightarrow> ((length (Stdout p) > 0, None), tr1)))"

definition FetchOriginBranch :: "world \<Rightarrow> string \<Rightarrow> cmd list \<Rightarrow> error option \<times> cmd list" where
  "FetchOriginBranch w branch tr =
     (case LookPath w tr ''git'' of
        Inl e \<Rightarrow> (Some e, tr)
      | Inr gitPath \<Rightarrow>
          (let (p, tr1) = run w (GitFetchOrigin branch) tr
           in case RunErr p of
                Some e \<Rightarrow> (Some e, tr1)
              | None \<Rightarrow> (None, tr1)))"

definition CheckoutToPullRequest :: "world \<Rightarrow> int \<Rightarrow> cmd list \<Rightarrow> error option \<times> cmd list" where
  "CheckoutToPullRequest w number tr =
     (case LookPath w tr ''gh'' of
        Inl e \<Rightarrow> (Some e, tr)
      | Inr ghPath \<Rightarrow>
          (let (p, tr1) = run w (GhPrCheckout number) tr
           in case RunErr p of
                Some e \<Rightarrow> (Some (StderrWrap (Stderr p) e), tr1)
              | None \<Rightarrow> (None, tr1)))"

fun strings_HasPrefix :: "string \<Rightarrow> string \<Rightarrow> bool" where
  "strings_HasPrefix s [] = True"
| "strings_HasPrefix [] (p # ps) = False"
| "strings_HasPrefix (c # cs) (p # ps) = (c = p \<and> strings_HasPrefix cs ps)"

fun strings_Contains :: "string \<Rightarrow> string \<Rightarrow> bool" where
  "strings_Contains [] substr = (substr = [])"
| "strings_Contains (c # cs) substr =
     (strings_HasPrefix (c # cs) substr \<or> strings_Contains cs substr)"

text \<open>\<^verbatim>\<open>s[:n]\<close> panics when \<open>n\<close> exceeds the length of \<open>s\<close>.\<close>

definition slice_to :: "string \<Rightarrow> nat \<Rightarrow> panic + string" where
  "slice_to s n = (if n \<le> length s then Inr (take n s) else Inl (SliceBounds n (length s)))"

definition RebaseOntoPullRequest ::
  "world \<Rightarrow> string \<Rightarrow> string \<Rightarrow> string \<Rightarrow> cmd list \<Rightarrow> (panic + error option) \<times> cmd list" where
  "RebaseOntoPullRequest w targetBase oldParent topicBranch tr =
     (case LookPath w tr ''git'' of
        Inl e \<Rightarrow> (Inr (Some e), tr)
      | Inr gitPath \<Rightarrow>
          (let (p, tr1) = run w (GitRebaseOnto targetBase oldParent topicBranch) tr
           in case RunErr p of
                None \<Rightarrow> (Inr None, tr1)
              | Some e \<Rightarrow>
                  (let (aborted, tr2) = run w GitRebaseAbort tr1
                   in if strings_Contains (Stderr p) ''could not apply''
                      then (case slice_to oldParent 7 of
                              Inl pn \<Rightarrow> (Inl pn, tr2)
                            | Inr short \<Rightarrow>
                                (Inr (Some (Conflicted topicBranch targetBase short)), tr2))
                      else (Inr (Some (StderrWrap (Stderr p) e)), tr2))))"


section \<open>The processing loop\<close>

text \<open>
  One iteration of the loop of \<^verbatim>\<open>main\<close> (lines 112 to 191). The parameter \<open>err\<close> is
  the variable \<^verbatim>\<open>err\<close> of \<^verbatim>\<open>main\<close> that line 125 reads; the \<^verbatim>\<open>err\<close> declared at
  line 148 is a new variable of the loop body. Reading \<^verbatim>\<open>dependedPullRequest.State\<close>
  through a nil pointer panics.
\<close>

definition outcome ::
  "PullRequest \<Rightarrow> int list \<Rightarrow> PullRequest option \<Rightarrow> error option \<Rightarrow> ProcessedPullRequest" where
  "outcome pr dependOns depended e =
     \<lparr>PullRequest = pr, DependOns = dependOns, DependedPullRequest = depended, Error = e\<rparr>"

definition process ::
  "world \<Rightarrow> string \<Rightarrow> error option \<Rightarrow> PullRequest \<Rightarrow> cmd list
     \<Rightarrow> (panic + ProcessedPullRequest) \<times> cmd list" where
  "process w defaultBranch err pr tr =
     (case extract_dependOns (Body pr) of
        Inl pn \<Rightarrow> (Inl pn, tr)
      | Inr dependOns \<Rightarrow>
          if err \<noteq> None then (Inl (PanicError (NotInteger (the err))), tr)
          else if length dependOns = 0
            then (Inr (outcome pr [] None (Some ErrNoDependOn)), tr)
          else if length dependOns > 1
            then (Inr (outcome pr dependOns None (Some (MultipleDependencies dependOns))), tr)
          else
            (let dependOn = hd dependOns;
                 ((dependedPullRequest, err1), tr1) = GetPullRequest w dependOn tr
             in if err1 \<noteq> None
                  then (Inr (outcome pr dependOns None (Some (FailedToGet dependOn (the err1)))), tr1)
                else case dependedPullRequest of
                  None \<Rightarrow> (Inl NilDereference, tr1)
                | Some depended \<Rightarrow>
                    if State depended \<noteq> ''MERGED''
                      then (Inr (outcome pr dependOns None (Some (NotMerged dependOn))), tr1)
                    else
                      (let (err2, tr2) = CheckoutToPullRequest w (Number pr) tr1
                       in if err2 \<noteq> None
                            then (Inr (outcome pr dependOns None
                                         (Some (FailedToCheckout dependOn (the err2)))), tr2)
                          else
                            (case RebaseOntoPullRequest w (''origin/'' @ defaultBranch)
                                    (MergeCommit_Oid depended) (HeadRefName pr) tr2 of
                               (Inl pn, tr3) \<Rightarrow> (Inl pn, tr3)
                             | (Inr (Some e), tr3) \<Rightarrow>
                                 (Inr (outcome pr dependOns None
                                         (Some (FailedToRebase dependOn e))), tr3)
                             | (Inr None, tr3) \<Rightarrow>
                                 (Inr (outcome pr dependOns (Some depended) None), tr3)))))"

text \<open>The loop appends one outcome per request and stops at a panic.\<close>

fun process_all ::
  "world \<Rightarrow> string \<Rightarrow> error option \<Rightarrow> PullRequest list \<Rightarrow> ProcessedPullRequest list
     \<Rightarrow> cmd list \<Rightarrow> (panic + ProcessedPullRequest list) \<times> cmd list" where
  "process_all w defaultBranch err [] processedPullRequests tr = (Inr processedPullRequests, tr)"
| "process_all w defaultBranch err (pr # prs) processedPullRequests tr =
     (case process w defaultBranch err pr tr of
        (Inl pn, tr1) \<Rightarrow> (Inl pn, tr1)
      | (Inr p, tr1) \<Rightarrow>
          process_all w defaultBranch err prs (processedPullRequests @ [p]) tr1)"

section \<open>The report\<close>

text \<open>
  Lines 196 to 231 without colours: the section of rebased requests prints, for every
  outcome with a nil error, both branch names, number and URL, and number and URL of the
  depended request, read through the pointer; the other section prints every outcome with
  an error.
\<close>

record rebased_line =
  rl_base :: string
  rl_head :: string
  rl_number :: int
  rl_url :: string
  rl_depended_number :: int
  rl_depended_url :: string

fun report_rebased :: "ProcessedPullRequest list \<Rightarrow> panic + rebased_line list" where
  "report_rebased [] = Inr []"
| "report_rebased (pr # prs) =
     (if Error pr \<noteq> None then report_rebased prs
      else case DependedPullRequest pr of
             None \<Rightarrow> Inl NilDereference
           | Some depended \<Rightarrow>
               (case report_rebased prs of
                  Inl pn \<Rightarrow> Inl pn
                | Inr ls \<Rightarrow>
                    Inr (\<lparr>rl_base = BaseRefName (PullRequest pr),
                          rl_head = HeadRefName (PullRequest pr),
                          rl_number = Number (PullRequest pr),
                          rl_url = URL (PullRequest pr),
                          rl_depended_number = Number depended,
                          rl_depended_url = URL depended\<rparr> # ls)))"

definition report_not_rebased :: "ProcessedPullRequest list \<Rightarrow> ProcessedPullRequest list" where
  "report_not_rebased prs = filter (\<lambda>pr. Error pr \<noteq> None) prs"

section \<open>The run\<close>

datatype exit =
    Fatal error                          \<comment> \<open>line 62: "error:" and the error\<close>
  | Dirty                                \<comment> \<open>line 67: "current branch is dirty. please retry ..."\<close>
  | ResolveDefaultBranchFailed error     \<comment> \<open>line 79\<close>
  | FetchOriginFailed string error       \<comment> \<open>line 84\<close>
  | ListPullRequestsFailed error         \<comment> \<open>line 90\<close>
  | NoPullRequests                       \<comment> \<open>line 98\<close>
  | Reported "rebased_line list" "ProcessedPullRequest list"
  | Panicked panic

definition main :: "world \<Rightarrow> exit \<times> cmd list" where
  "main w =
     (let ((isDirty, err0), tr0) = IsCurrentBranchDirty w []
      in if err0 \<noteq> None then (Fatal (the err0), tr0)
         else if isDirty then (Dirty, tr0)
         else
           (let ((defaultBranch, err1), tr1) = GetDefaultBranch w tr0
            in if err1 \<noteq> None then (ResolveDefaultBranchFailed (the err1), tr1)
               else
                 (let (err2, tr2) = FetchOriginBranch w defaultBranch tr1
                  in if err2 \<noteq> None then (FetchOriginFailed defaultBranch (the err2), tr2)
                     else
                       (let ((pullRequests, err), tr3) = ListPullRequests w tr2
                        in if err \<noteq> None then (ListPullRequestsFailed (the err), tr3)
                           else if length pullRequests = 0 then (NoPullRequests, tr3)
                           else
                             (case process_all w defaultBranch err pullRequests [] tr3 of
                                (Inl pn, tr4) \<Rightarrow> (Panicked pn, tr4)
                              | (Inr processedPullRequests, tr4) \<Rightarrow>
                                  (case report_rebased processedPullRequests of
                                     Inl pn \<Rightarrow> (Panicked pn, tr4)
                                   | Inr ls \<Rightarrow>
                                       (Reported ls (report_not_rebased processedPullRequests),
                                        tr4)))))))"


section \<open>Outcome kinds\<close>

text \<open>
  The failure kinds of one request, as the loop builds them: no dependency, ambiguous
  dependency, lookup failed, dependency not merged, checkout failed, rebase failed (which
  wraps the conflict and the raw failure of the rebase).
\<close>

fun is_classified :: "error \<Rightarrow> bool" where
  "is_classified ErrNoDependOn = True"
| "is_classified (MultipleDependencies ds) = True"
| "is_classified (FailedToGet n e) = True"
| "is_classified (NotMerged n) = True"
| "is_classified (FailedToCheckout n e) = True"
| "is_classified (FailedToRebase n e) = True"
| "is_classified e = False"

definition successful :: "ProcessedPullRequest \<Rightarrow> bool" where
  "successful p = (Error p = None)"

definition classified_failure :: "ProcessedPullRequest \<Rightarrow> bool" where
  "classified_failure p = (case Error p of None \<Rightarrow> False | Some e \<Rightarrow> is_classified e)"

section \<open>Scenarios\<close>

text \<open>
  Concrete environments and requests, after the scenarios of the specification. In a
  scenario every tool is found, the answer to a command does not depend on the trace, and
  the three decoders return fixed values.
\<close>

definition quiet :: proc where
  "quiet = \<lparr>Stdout = [], Stderr = [], RunErr = None\<rparr>"

definition request :: "int \<Rightarrow> string \<Rightarrow> string \<Rightarrow> string \<Rightarrow> string \<Rightarrow> PullRequest" where
  "request n head body state oid =
     \<lparr>BaseRefName = ''main'', HeadRefName = head, Body = body, IsDraft = False, Number = n,
      Title = head, URL = ''https://example.test/pull'', State = state, MergeCommit_Oid = oid\<rparr>"

definition scenario :: "(cmd \<Rightarrow> proc) \<Rightarrow> PullRequest list \<Rightarrow> PullRequest \<Rightarrow> world" where
  "scenario answer listed depended =
     \<lparr>LookPath = (\<lambda>tr name. Inr (''/usr/bin/'' @ name)),
      Run = (\<lambda>tr c. answer c),
      Unmarshal_defaultBranch = (\<lambda>s. Inr ''main''),
      Unmarshal_PullRequests = (\<lambda>s. Inr listed),
      Unmarshal_PullRequest = (\<lambda>s. Inr depended)\<rparr>"

definition pr10 :: PullRequest where
  "pr10 = request 10 ''feature'' ''Depends on: #123'' ''OPEN'' []"

definition pr11 :: PullRequest where
  "pr11 = request 11 ''typo'' ''Fix a typo'' ''OPEN'' []"

definition pr12 :: PullRequest where
  "pr12 = request 12 ''both'' ''Depends on: #1 Depends on: #2'' ''OPEN'' []"

definition merged123 :: PullRequest where
  "merged123 = request 123 ''base'' [] ''MERGED'' ''abc1234def5678''"

definition open123 :: PullRequest where
  "open123 = request 123 ''base'' [] ''OPEN'' []"

definition merged123_no_commit :: PullRequest where
  "merged123_no_commit = request 123 ''base'' [] ''MERGED'' []"

text \<open>Scenario A and its variations: every command succeeds and prints nothing.\<close>

definition world_A :: world where
  "world_A = scenario (\<lambda>c. quiet) [pr10, pr11, pr12] merged123"

definition world_mixed :: world where
  "world_mixed = scenario (\<lambda>c. quiet) [pr11, pr10] merged123"

text \<open>Scenario D: the dependency is still open.\<close>

definition world_D :: world where
  "world_D = scenario (\<lambda>c. quiet) [pr10] open123"

text \<open>Scenario E: the rebase stops at a content conflict.\<close>

definition conflict :: proc where
  "conflict = \<lparr>Stdout = [], Stderr = ''error: could not apply 1a2b3c4... Add feature'',
               RunErr = Some (ExecError ''exit status 1'')\<rparr>"

definition world_E :: "PullRequest \<Rightarrow> world" where
  "world_E depended =
     scenario (\<lambda>c. case c of GitRebaseOnto targetBase oldParent topicBranch \<Rightarrow> conflict
                   | _ \<Rightarrow> quiet)
       [pr10] depended"

text \<open>The dependency is merged but has no merge commit: \<^verbatim>\<open>git rebase\<close> rejects the
  empty upstream.\<close>

definition invalid_upstream :: proc where
  "invalid_upstream = \<lparr>Stdout = [], Stderr = ''fatal: invalid upstream '' @ [CHR 0x27, CHR 0x27],
                        RunErr = Some (ExecError ''exit status 128'')\<rparr>"

definition world_no_commit :: world where
  "world_no_commit =
     scenario (\<lambda>c. case c of GitRebaseOnto targetBase oldParent topicBranch \<Rightarrow> invalid_upstream
                   | _ \<Rightarrow> quiet)
       [pr10] merged123_no_commit"

text \<open>Scenario F: the working copy has a modified file.\<close>

definition world_F :: world where
  "world_F =
     scenario (\<lambda>c. case c of GitStatus \<Rightarrow> quiet\<lparr>Stdout := '' M main.go''\<rparr> | _ \<Rightarrow> quiet)
       [pr10] merged123"

text \<open>The review-platform tool exits with code zero and writes a notice to its error
  stream.\<close>

definition warning :: proc where
  "warning = \<lparr>Stdout = ''{}'', Stderr = ''A new release of gh is available'', RunErr = None\<rparr>"

definition world_warning :: world where
  "world_warning =
     scenario (\<lambda>c. case c of GhRepoView \<Rightarrow> warning | GhPrList \<Rightarrow> warning
                   | GhPrView n \<Rightarrow> warning | _ \<Rightarrow> quiet)
       [pr10] merged123"

section \<open>Properties of the parser\<close>

text \<open>Every capture is a non-empty string of digits.\<close>

lemma find_all_captures: "d \<in> set (find_all s) \<Longrightarrow> d \<noteq> [] \<and> list_all is_digit d"
proof (induction "length s" arbitrary: s rule: less_induct)
  case less
  show ?case
  proof (cases s)
    case Nil
    with less.prems show ?thesis by simp
  next
    case (Cons c cs)
    show ?thesis
    proof (cases "match_here (c # cs)")
      case None
      with less.prems Cons have "d \<in> set (find_all cs)" by simp
      moreover have "length cs < length s" using Cons by simp
      ultimately show ?thesis using less.hyps by blast
    next
      case (Some m)
      obtain d' r where m: "m = (d', r)" by (cases m)
      from less.prems Cons Some m have "d = d' \<or> d \<in> set (find_all r)" by simp
      then show ?thesis
      proof
        assume "d = d'"
        with Some m match_here_result show ?thesis by blast
      next
        assume in_r: "d \<in> set (find_all r)"
        have "length r < length s"
          using match_here_result Some m Cons by blast
        with in_r show ?thesis using less.hyps by blast
      qed
    qed
  qed
qed

text \<open>On such a string the conversion has no syntax error; it fails exactly on overflow.\<close>

lemma Atoi_digits:
  "d \<noteq> [] \<Longrightarrow> list_all is_digit d \<Longrightarrow>
   Atoi d = (if 2 ^ 63 \<le> decimal d then Inl (ErrRange d) else Inr (decimal d))"
proof -
  assume ne: "d \<noteq> []" and dg: "list_all is_digit d"
  then obtain c cs where d: "d = c # cs" by (cases d) auto
  with dg have "is_digit c" by simp
  then have "c \<noteq> CHR ''-''" "c \<noteq> CHR ''+''" by (auto simp: is_digit_def)
  with d ne dg show ?thesis by (simp add: Atoi_def Let_def list_ex_iff list_all_iff)
qed

text \<open>A body without a colon has no reference.\<close>

lemma find_all_needs_colon: "CHR '':'' \<notin> set s \<Longrightarrow> find_all s = []"
proof (induction s)
  case Nil
  show ?case by simp
next
  case (Cons c cs)
  have "match_here (c # cs) = None"
  proof (cases "match_here (c # cs)")
    case None
    then show ?thesis .
  next
    case (Some m)
    obtain d r where "m = (d, r)" by (cases m)
    with Some match_here_result [of "c # cs" d r] Cons.prems show ?thesis by simp
  qed
  with Cons show ?case by simp
qed

lemma extract_needs_colon: "CHR '':'' \<notin> set body \<Longrightarrow> extract_dependOns body = Inr []"
  by (simp add: extract_dependOns_def find_all_needs_colon)

section \<open>Properties of the operations\<close>

text \<open>
  The three queries on the path where the tool exits with code zero and its error stream
  is not empty: the error returned is the nil error of the run.
\<close>

lemma GetDefaultBranch_stderr:
  "RunErr (Run w tr GhRepoView) = None \<Longrightarrow> Stderr (Run w tr GhRepoView) \<noteq> [] \<Longrightarrow>
   GetDefaultBranch w tr = (([], None), tr @ [GhRepoView])"
  by (simp add: GetDefaultBranch_def run_def)

lemma ListPullRequests_stderr:
  "RunErr (Run w tr GhPrList) = None \<Longrightarrow> Stderr (Run w tr GhPrList) \<noteq> [] \<Longrightarrow>
   ListPullRequests w tr = (([], None), tr @ [GhPrList])"
  by (simp add: ListPullRequests_def run_def)

lemma GetPullRequest_stderr:
  "RunErr (Run w tr (GhPrView n)) = None \<Longrightarrow> Stderr (Run w tr (GhPrView n)) \<noteq> [] \<Longrightarrow>
   GetPullRequest w n tr = ((None, None), tr @ [GhPrView n])"
  by (simp add: GetPullRequest_def run_def)

lemma GetPullRequest_trace: "snd (GetPullRequest w n tr) = tr @ [GhPrView n]"
  by (simp add: GetPullRequest_def run_def Let_def split: sum.splits)

text \<open>
  What a failed rebase command leads to: the abort is run next, whatever the error stream
  says, and the result depends on the error stream and on the length of the old parent.
\<close>

lemma RebaseOntoPullRequest_failure:
  assumes "LookPath w tr ''git'' = Inr gitPath"
    and "RunErr (Run w tr (GitRebaseOnto targetBase oldParent topicBranch)) = Some e"
  shows "RebaseOntoPullRequest w targetBase oldParent topicBranch tr =
     (if strings_Contains (Stderr (Run w tr (GitRebaseOnto targetBase oldParent topicBranch)))
           ''could not apply''
      then (if 7 \<le> length oldParent
            then Inr (Some (Conflicted topicBranch targetBase (take 7 oldParent)))
            else Inl (SliceBounds 7 (length oldParent)))
      else Inr (Some (StderrWrap
                  (Stderr (Run w tr (GitRebaseOnto targetBase oldParent topicBranch))) e)),
      tr @ [GitRebaseOnto targetBase oldParent topicBranch, GitRebaseAbort])"
  using assms
  by (simp add: RebaseOntoPullRequest_def run_def slice_to_def)

text \<open>An iteration that does not panic yields a success with the depended request, or a
  classified failure without it.\<close>

lemma process_outcome:
  "process w defaultBranch err pr tr = (Inr p, tr1) \<Longrightarrow>
     PullRequest p = pr \<and>
     ((Error p = None \<and> DependedPullRequest p \<noteq> None)
      \<or> (\<exists>e. Error p = Some e \<and> is_classified e \<and> DependedPullRequest p = None))"
  unfolding process_def outcome_def Let_def
  by (auto split: sum.splits if_splits option.splits prod.splits)

lemma length_one_hd: "length xs \<noteq> 0 \<Longrightarrow> \<not> 1 < length xs \<Longrightarrow> xs = [hd xs]"
  by (cases xs) auto

text \<open>What checkout and rebase may add to the trace.\<close>

lemma CheckoutToPullRequest_trace:
  "snd (CheckoutToPullRequest w n tr) = tr \<or> snd (CheckoutToPullRequest w n tr) = tr @ [GhPrCheckout n]"
  by (auto simp: CheckoutToPullRequest_def run_def split: sum.splits option.splits)

lemma RebaseOntoPullRequest_trace:
  "snd (RebaseOntoPullRequest w t p b tr) \<in>
     {tr, tr @ [GitRebaseOnto t p b], tr @ [GitRebaseOnto t p b, GitRebaseAbort]}"
  by (auto simp: RebaseOntoPullRequest_def run_def Let_def split: sum.splits option.splits)

text \<open>A property of every iteration holds for everything the loop appends.\<close>

lemma process_all_outcomes:
  assumes step: "\<And>pr tr p tr1. process w defaultBranch err pr tr = (Inr p, tr1) \<Longrightarrow> P p"
    and run: "process_all w defaultBranch err prs acc tr = (Inr outs, tr')"
  shows "\<exists>new. outs = acc @ new \<and> length new = length prs \<and> list_all P new"
  using run
proof (induction prs arbitrary: acc tr)
  case Nil
  then show ?case by simp
next
  case (Cons pr prs)
  from Cons.prems obtain p tr1 where p: "process w defaultBranch err pr tr = (Inr p, tr1)"
    and rest: "process_all w defaultBranch err prs (acc @ [p]) tr1 = (Inr outs, tr')"
    by (auto split: prod.splits sum.splits)
  from Cons.IH [OF rest] obtain new where
    new: "outs = (acc @ [p]) @ new" "length new = length prs" "list_all P new"
    by blast
  from step [OF p] new show ?case
    by (intro exI [of _ "p # new"]) simp
qed

lemma report_rebased_total:
  "list_all (\<lambda>p. (Error p = None) = (DependedPullRequest p \<noteq> None)) outs \<Longrightarrow>
   \<exists>ls. report_rebased outs = Inr ls"
  by (induction outs) (auto split: option.splits sum.splits)

section \<open>Claims\<close>

text \<open>
  C1. The claim: extraction is case-insensitive, keeps the order of appearance and the
  duplicates, and matches "depends on", "depended on", "depending on", "DEPEND ON", each
  followed by \<^verbatim>\<open>#<digits>\<close>, as in the body "Depends on #123". The bodies that the README
  lists as examples are evaluated here: the pattern of \<^verbatim>\<open>main.go\<close> asks for a colon
  after "on" and finds no reference in any of them, as in no body without a colon
  (\<open>extract_needs_colon\<close>). With the colon the references are found, in order, with
  duplicates, in either case.
\<close>

theorem C1_readme_examples:
  "extract_dependOns ''Depends on #123'' = Inr []
   \<and> extract_dependOns ''depending on #789'' = Inr []
   \<and> extract_dependOns ''DEPEND ON #101'' = Inr []
   \<and> extract_dependOns ''Depends on: #123'' = Inr [123]
   \<and> extract_dependOns ''DEPEND ON: #7, depended on: #3; Depending  on: #7'' = Inr [7, 3, 7]"
  by code_simp

text \<open>
  C2. The claim: when a review-platform query (default branch, list of requests, one
  request by number) leaves a non-empty error stream, the operation returns a non-nil error,
  even when the exit code is zero. In \<open>world_warning\<close> the tool exits with code zero and
  writes a notice to its error stream: each of the three operations returns its zero value
  together with a nil error (in every environment: \<open>GetDefaultBranch_stderr\<close>,
  \<open>ListPullRequests_stderr\<close>, \<open>GetPullRequest_stderr\<close>), and the loop then reads the
  state of the depended request through the nil pointer.
\<close>

theorem C2_stderr_with_exit_zero:
  "GetDefaultBranch world_warning [] = (([], None), [GhRepoView])
   \<and> ListPullRequests world_warning [] = (([], None), [GhPrList])
   \<and> GetPullRequest world_warning 123 [] = ((None, None), [GhPrView 123])
   \<and> process world_warning ''main'' None pr10 [] = (Inl NilDereference, [GhPrView 123])"
  by code_simp

text \<open>
  C3. When the processing loop completes (it returns its list instead of panicking), it
  has produced as many outcomes as there were requests, and every outcome is either a
  success (nil error) or a classified failure (an error of one of the failure kinds), and
  not both.
\<close>

theorem C3_outcome_count:
  assumes "process_all w defaultBranch err prs [] tr = (Inr outs, tr')"
  shows "length outs = length prs
         \<and> list_all (\<lambda>p. successful p \<noteq> classified_failure p) outs"
proof -
  have step: "\<And>pr tr p tr1. process w defaultBranch err pr tr = (Inr p, tr1)
      \<Longrightarrow> successful p \<noteq> classified_failure p"
    by (auto simp: successful_def classified_failure_def dest: process_outcome)
  from process_all_outcomes [where P = "\<lambda>p. successful p \<noteq> classified_failure p", OF step assms]
  show ?thesis by auto
qed

theorem C3_outcome_count_witness:
  "process_all world_A ''main'' None [pr10, pr11, pr12] [] []
     = (Inr [outcome pr10 [123] (Some merged123) None,
             outcome pr11 [] None (Some ErrNoDependOn),
             outcome pr12 [1, 2] None (Some (MultipleDependencies [1, 2]))],
        [GhPrView 123, GhPrCheckout 10,
         GitRebaseOnto ''origin/main'' ''abc1234def5678'' ''feature''])
   \<and> length [outcome pr10 [123] (Some merged123) None,
             outcome pr11 [] None (Some ErrNoDependOn),
             outcome pr12 [1, 2] None (Some (MultipleDependencies [1, 2]))]
       = length [pr10, pr11, pr12]
   \<and> list_all (\<lambda>p. successful p \<noteq> classified_failure p)
        [outcome pr10 [123] (Some merged123) None,
         outcome pr11 [] None (Some ErrNoDependOn),
         outcome pr12 [1, 2] None (Some (MultipleDependencies [1, 2]))]"
proof -
  have h: "process_all world_A ''main'' None [pr10, pr11, pr12] [] []
     = (Inr [outcome pr10 [123] (Some merged123) None,
             outcome pr11 [] None (Some ErrNoDependOn),
             outcome pr12 [1, 2] None (Some (MultipleDependencies [1, 2]))],
        [GhPrView 123, GhPrCheckout 10,
         GitRebaseOnto ''origin/main'' ''abc1234def5678'' ''feature''])"
    by code_simp
  from C3_outcome_count [OF h] h show ?thesis by blast
qed

text \<open>
  C4. The claim: extracting the references never fails and never aborts the program,
  because every capture is a digit string and its conversion is infallible. The captures
  are digit strings (\<open>find_all_captures\<close>), but a digit string may denote a number beyond
  the range of \<^verbatim>\<open>int\<close>: then \<^verbatim>\<open>strconv.Atoi\<close> returns a range error
  (\<open>Atoi_digits\<close>) and line 119 panics, whatever the environment.
\<close>

theorem C4_overflow_panics:
  "extract_dependOns ''Depends on: #99999999999999999999''
     = Inl (PanicError (ErrRange ''99999999999999999999''))
   \<and> process w defaultBranch err (pr\<lparr>Body := ''Depends on: #99999999999999999999''\<rparr>) tr
     = (Inl (PanicError (ErrRange ''99999999999999999999'')), tr)"
proof -
  have e: "extract_dependOns ''Depends on: #99999999999999999999''
     = Inl (PanicError (ErrRange ''99999999999999999999''))"
    by code_simp
  show ?thesis
    unfolding process_def using e by simp
qed

text \<open>
  C5. A request with exactly one extracted reference, whose dependency was fetched and is
  in a state other than \<^verbatim>\<open>MERGED\<close>, gets the "is not merged" failure, and the only
  command run for it is the lookup: neither checkout nor rebase follows.
\<close>

theorem C5_not_merged:
  assumes "extract_dependOns (Body pr) = Inr [n]"
    and "GetPullRequest w n tr = ((Some depended, None), tr1)"
    and "State depended \<noteq> ''MERGED''"
  shows "process w defaultBranch None pr tr
           = (Inr \<lparr>PullRequest = pr, DependOns = [n], DependedPullRequest = None,
                   Error = Some (NotMerged n)\<rparr>, tr @ [GhPrView n])"
proof -
  from assms(2) have "tr1 = tr @ [GhPrView n]"
    using GetPullRequest_trace [of w n tr] by simp
  with assms show ?thesis
    by (simp add: process_def outcome_def)
qed

theorem C5_not_merged_witness:
  "extract_dependOns (Body pr10) = Inr [123]
   \<and> GetPullRequest world_D 123 [GhPrList] = ((Some open123, None), [GhPrList, GhPrView 123])
   \<and> State open123 \<noteq> ''MERGED''
   \<and> process world_D ''main'' None pr10 [GhPrList]
        = (Inr \<lparr>PullRequest = pr10, DependOns = [123], DependedPullRequest = None,
                Error = Some (NotMerged 123)\<rparr>, [GhPrList] @ [GhPrView 123])"
proof -
  have h1: "extract_dependOns (Body pr10) = Inr [123]" by code_simp
  have h2: "GetPullRequest world_D 123 [GhPrList]
              = ((Some open123, None), [GhPrList, GhPrView 123])" by code_simp
  have h3: "State open123 \<noteq> ''MERGED''" by code_simp
  from C5_not_merged [OF h1 h2 h3] h1 h2 h3 show ?thesis by blast
qed

text \<open>
  C6. A request with no extracted reference gets the "no dependencies found" failure, and
  a request with two or more gets the "multiple dependencies found" failure that carries
  the whole list; in both cases the trace is unchanged, so no lookup, checkout or rebase
  was run for it.
\<close>

theorem C6_reference_count:
  "(extract_dependOns (Body pr) = Inr [] \<longrightarrow>
      process w defaultBranch None pr tr
        = (Inr \<lparr>PullRequest = pr, DependOns = [], DependedPullRequest = None,
                Error = Some ErrNoDependOn\<rparr>, tr))
   \<and> (extract_dependOns (Body pr) = Inr dependOns \<and> 2 \<le> length dependOns \<longrightarrow>
      process w defaultBranch None pr tr
        = (Inr \<lparr>PullRequest = pr, DependOns = dependOns, DependedPullRequest = None,
                Error = Some (MultipleDependencies dependOns)\<rparr>, tr))"
  by (auto simp: process_def outcome_def)

theorem C6_reference_count_witness:
  "extract_dependOns (Body pr11) = Inr []
   \<and> process world_A ''main'' None pr11 [GhPrList]
        = (Inr \<lparr>PullRequest = pr11, DependOns = [], DependedPullRequest = None,
                Error = Some ErrNoDependOn\<rparr>, [GhPrList])
   \<and> extract_dependOns (Body pr12) = Inr [1, 2] \<and> 2 \<le> length [1, 2 :: int]
   \<and> process world_A ''main'' None pr12 [GhPrList]
        = (Inr \<lparr>PullRequest = pr12, DependOns = [1, 2], DependedPullRequest = None,
                Error = Some (MultipleDependencies [1, 2])\<rparr>, [GhPrList])"
proof -
  have h0: "extract_dependOns (Body pr11) = Inr []" by code_simp
  have h2: "extract_dependOns (Body pr12) = Inr [1, 2]" by code_simp
  have l2: "2 \<le> length [1, 2 :: int]" by simp
  from C6_reference_count [of pr11 world_A "''main''" "[GhPrList]" "[1, 2]"]
       C6_reference_count [of pr12 world_A "''main''" "[GhPrList]" "[1, 2]"]
       h0 h2 l2
  show ?thesis by blast
qed

text \<open>
  C7. When \<^verbatim>\<open>git\<close> is found and the rebase command fails, the abort is run next, whatever
  the error stream says and whatever the abort itself answers, and then an error is
  returned: the conflict error with the first seven characters of the old parent when the
  error stream contains "could not apply", and otherwise the error stream wrapped around
  the raw error. The old parent that \<^verbatim>\<open>main\<close> passes is the merge commit identifier as
  fetched: a full object identifier, or the empty string, which \<^verbatim>\<open>git\<close> rejects before
  it applies anything. So a conflict comes with an old parent of at least seven characters;
  this is the third hypothesis. The witness runs both branches: a conflict with a full
  identifier, and the empty identifier that \<^verbatim>\<open>git\<close> rejects.
\<close>

theorem C7_failed_rebase:
  assumes "LookPath w tr ''git'' = Inr gitPath"
    and "RunErr (Run w tr (GitRebaseOnto targetBase oldParent topicBranch)) = Some e"
    and "strings_Contains (Stderr (Run w tr (GitRebaseOnto targetBase oldParent topicBranch)))
           ''could not apply'' \<longrightarrow> 7 \<le> length oldParent"
  shows "RebaseOntoPullRequest w targetBase oldParent topicBranch tr =
     (Inr (Some
        (if strings_Contains (Stderr (Run w tr (GitRebaseOnto targetBase oldParent topicBranch)))
              ''could not apply''
         then Conflicted topicBranch targetBase (take 7 oldParent)
         else StderrWrap (Stderr (Run w tr (GitRebaseOnto targetBase oldParent topicBranch))) e)),
      tr @ [GitRebaseOnto targetBase oldParent topicBranch, GitRebaseAbort])"
  using assms
  by (simp add: RebaseOntoPullRequest_def run_def slice_to_def)

theorem C7_failed_rebase_witness:
  "LookPath (world_E merged123) [] ''git'' = Inr ''/usr/bin/git''
   \<and> RunErr (Run (world_E merged123) []
          (GitRebaseOnto ''origin/main'' ''abc1234def5678'' ''feature''))
       = Some (ExecError ''exit status 1'')
   \<and> strings_Contains
        (Stderr (Run (world_E merged123) []
           (GitRebaseOnto ''origin/main'' ''abc1234def5678'' ''feature'')))
        ''could not apply''
   \<and> 7 \<le> length ''abc1234def5678''
   \<and> RebaseOntoPullRequest (world_E merged123) ''origin/main'' ''abc1234def5678'' ''feature'' []
       = (Inr (Some (Conflicted ''feature'' ''origin/main'' ''abc1234'')),
          [GitRebaseOnto ''origin/main'' ''abc1234def5678'' ''feature'', GitRebaseAbort])
   \<and> LookPath world_no_commit [] ''git'' = Inr ''/usr/bin/git''
   \<and> RunErr (Run world_no_commit [] (GitRebaseOnto ''origin/main'' [] ''feature''))
       = Some (ExecError ''exit status 128'')
   \<and> \<not> strings_Contains
          (Stderr (Run world_no_commit [] (GitRebaseOnto ''origin/main'' [] ''feature'')))
          ''could not apply''
   \<and> RebaseOntoPullRequest world_no_commit ''origin/main'' [] ''feature'' []
       = (Inr (Some (StderrWrap (''fatal: invalid upstream '' @ [CHR 0x27, CHR 0x27])
                       (ExecError ''exit status 128''))),
          [GitRebaseOnto ''origin/main'' [] ''feature'', GitRebaseAbort])"
proof -
  have p1: "LookPath (world_E merged123) [] ''git'' = Inr ''/usr/bin/git''" by code_simp
  have e1: "RunErr (Run (world_E merged123) []
          (GitRebaseOnto ''origin/main'' ''abc1234def5678'' ''feature''))
       = Some (ExecError ''exit status 1'')" by code_simp
  have c1: "strings_Contains
        (Stderr (Run (world_E merged123) []
           (GitRebaseOnto ''origin/main'' ''abc1234def5678'' ''feature'')))
        ''could not apply''" by code_simp
  have l1: "7 \<le> length ''abc1234def5678''" by simp
  have s1: "Stderr (Run (world_E merged123) []
           (GitRebaseOnto ''origin/main'' ''abc1234def5678'' ''feature''))
         = ''error: could not apply 1a2b3c4... Add feature''" by code_simp
  have t1: "take 7 ''abc1234def5678'' = ''abc1234''" by code_simp
  have p2: "LookPath world_no_commit [] ''git'' = Inr ''/usr/bin/git''" by code_simp
  have e2: "RunErr (Run world_no_commit [] (GitRebaseOnto ''origin/main'' [] ''feature''))
       = Some (ExecError ''exit status 128'')" by code_simp
  have c2: "\<not> strings_Contains
          (Stderr (Run world_no_commit [] (GitRebaseOnto ''origin/main'' [] ''feature'')))
          ''could not apply''" by code_simp
  have s2: "Stderr (Run world_no_commit [] (GitRebaseOnto ''origin/main'' [] ''feature''))
         = ''fatal: invalid upstream '' @ [CHR 0x27, CHR 0x27]" by code_simp
  have r1: "RebaseOntoPullRequest (world_E merged123) ''origin/main'' ''abc1234def5678''
              ''feature'' []
       = (Inr (Some (Conflicted ''feature'' ''origin/main'' ''abc1234'')),
          [GitRebaseOnto ''origin/main'' ''abc1234def5678'' ''feature'', GitRebaseAbort])"
    using C7_failed_rebase [OF p1 e1] c1 l1 t1 by simp
  have r2: "RebaseOntoPullRequest world_no_commit ''origin/main'' [] ''feature'' []
       = (Inr (Some (StderrWrap (''fatal: invalid upstream '' @ [CHR 0x27, CHR 0x27])
                       (ExecError ''exit status 128''))),
          [GitRebaseOnto ''origin/main'' [] ''feature'', GitRebaseAbort])"
    using C7_failed_rebase [OF p2 e2] c2 s2 by simp
  from p1 e1 c1 l1 r1 p2 e2 c2 r2 show ?thesis by blast
qed

text \<open>
  C8, as stated: a request that reaches checkout and rebase has a dependency that is merged
  and has a non-empty merge commit identifier, so that the rebase is never run with an
  empty old parent. The loop tests the state and nothing else: for a dependency in state
  \<^verbatim>\<open>MERGED\<close> without a merge commit, checkout and rebase are run, the rebase with the empty
  old parent, which \<^verbatim>\<open>git\<close> rejects.
\<close>

theorem C8_empty_old_parent_counterexample:
  "State merged123_no_commit = ''MERGED'' \<and> MergeCommit_Oid merged123_no_commit = []
   \<and> process world_no_commit ''main'' None pr10 []
     = (Inr (outcome pr10 [123] None
          (Some (FailedToRebase 123
             (StderrWrap (''fatal: invalid upstream '' @ [CHR 0x27, CHR 0x27])
                (ExecError ''exit status 128''))))),
        [GhPrView 123, GhPrCheckout 10, GitRebaseOnto ''origin/main'' [] ''feature'',
         GitRebaseAbort])"
  by code_simp

text \<open>
  C8, amended. A command that changes the working copy is run in an iteration only for a
  request with exactly one reference whose dependency was fetched and is in state
  \<^verbatim>\<open>MERGED\<close>; the command is the checkout of the request, the rebase of its head branch
  onto the default branch of the remote with the merge commit identifier of the dependency
  as the old parent, taken as it was fetched, or the abort.
\<close>

theorem C8_mutates_only_if_merged:
  assumes run: "process w defaultBranch None pr tr = (res, tr')"
    and c: "c \<in> set (drop (length tr) tr')" "mutates c"
  shows "\<exists>n depended tr1. extract_dependOns (Body pr) = Inr [n]
           \<and> GetPullRequest w n tr = ((Some depended, None), tr1)
           \<and> State depended = ''MERGED''
           \<and> (c = GhPrCheckout (Number pr)
               \<or> c = GitRebaseOnto (''origin/'' @ defaultBranch) (MergeCommit_Oid depended)
                      (HeadRefName pr)
               \<or> c = GitRebaseAbort)"
proof (cases "extract_dependOns (Body pr)")
  case (Inl pn)
  with run have "tr' = tr" by (simp add: process_def)
  with c show ?thesis by simp
next
  case (Inr dependOns)
  show ?thesis
  proof (cases "length dependOns = 0 \<or> 1 < length dependOns")
    case True
    then have "tr' = tr"
    proof
      assume "length dependOns = 0"
      with run Inr show ?thesis by (simp add: process_def)
    next
      assume "1 < length dependOns"
      with run Inr show ?thesis
        by (auto simp: process_def simp del: One_nat_def split: if_splits)
    qed
    with c show ?thesis by simp
  next
    case False
    then have one: "dependOns = [hd dependOns]" using length_one_hd by blast
    obtain dp e tr1 where g: "GetPullRequest w (hd dependOns) tr = ((dp, e), tr1)"
      by (metis surj_pair)
    then have tr1: "tr1 = tr @ [GhPrView (hd dependOns)]"
      using GetPullRequest_trace [of w "hd dependOns" tr] by simp
    have stop: "tr' = tr1 \<Longrightarrow> False"
      using c tr1 by (auto simp: mutates_def)
    show ?thesis
    proof (cases "e = None \<and> (\<exists>depended. dp = Some depended \<and> State depended = ''MERGED'')")
      case True
      then obtain depended where d: "e = None" "dp = Some depended" "State depended = ''MERGED''"
        by blast
      obtain err2 tr2 where co: "CheckoutToPullRequest w (Number pr) tr1 = (err2, tr2)"
        by (metis surj_pair)
      then have tr2: "tr2 = tr1 \<or> tr2 = tr1 @ [GhPrCheckout (Number pr)]"
        using CheckoutToPullRequest_trace [of w "Number pr" tr1] by simp
      have "tr' = tr2 \<or> tr' = snd (RebaseOntoPullRequest w (''origin/'' @ defaultBranch)
                (MergeCommit_Oid depended) (HeadRefName pr) tr2)"
        using run Inr False g d co
        by (auto simp: process_def Let_def simp del: One_nat_def
                 split: option.splits if_splits prod.splits sum.splits)
      with tr2 tr1 RebaseOntoPullRequest_trace [of w "''origin/'' @ defaultBranch"
                "MergeCommit_Oid depended" "HeadRefName pr" tr2]
      have "set (drop (length tr) tr') \<subseteq>
              {GhPrView (hd dependOns), GhPrCheckout (Number pr),
               GitRebaseOnto (''origin/'' @ defaultBranch) (MergeCommit_Oid depended)
                 (HeadRefName pr), GitRebaseAbort}"
        by auto
      with c have "c = GhPrCheckout (Number pr)
               \<or> c = GitRebaseOnto (''origin/'' @ defaultBranch) (MergeCommit_Oid depended)
                      (HeadRefName pr)
               \<or> c = GitRebaseAbort"
        by (auto simp: mutates_def)
      with Inr one g d show ?thesis by metis
    next
      case False
      with run Inr \<open>\<not> (length dependOns = 0 \<or> 1 < length dependOns)\<close> g
      have "tr' = tr1"
        by (auto simp: process_def Let_def simp del: One_nat_def
                 split: option.splits if_splits)
      with stop show ?thesis by blast
    qed
  qed
qed

theorem C8_mutates_only_if_merged_witness:
  "process world_A ''main'' None pr10 [GhPrList]
     = (Inr (outcome pr10 [123] (Some merged123) None),
        [GhPrList, GhPrView 123, GhPrCheckout 10,
         GitRebaseOnto ''origin/main'' ''abc1234def5678'' ''feature''])
   \<and> GitRebaseOnto ''origin/main'' ''abc1234def5678'' ''feature''
       \<in> set (drop (length [GhPrList])
                [GhPrList, GhPrView 123, GhPrCheckout 10,
                 GitRebaseOnto ''origin/main'' ''abc1234def5678'' ''feature''])
   \<and> mutates (GitRebaseOnto ''origin/main'' ''abc1234def5678'' ''feature'')
   \<and> (\<exists>n depended tr1. extract_dependOns (Body pr10) = Inr [n]
           \<and> GetPullRequest world_A n [GhPrList] = ((Some depended, None), tr1)
           \<and> State depended = ''MERGED''
           \<and> (GitRebaseOnto ''origin/main'' ''abc1234def5678'' ''feature''
                 = GhPrCheckout (Number pr10)
               \<or> GitRebaseOnto ''origin/main'' ''abc1234def5678'' ''feature''
                 = GitRebaseOnto (''origin/'' @ ''main'') (MergeCommit_Oid depended)
                      (HeadRefName pr10)
               \<or> GitRebaseOnto ''origin/main'' ''abc1234def5678'' ''feature''
                 = GitRebaseAbort))"
proof -
  have h: "process world_A ''main'' None pr10 [GhPrList]
     = (Inr (outcome pr10 [123] (Some merged123) None),
        [GhPrList, GhPrView 123, GhPrCheckout 10,
         GitRebaseOnto ''origin/main'' ''abc1234def5678'' ''feature''])" by code_simp
  have m: "GitRebaseOnto ''origin/main'' ''abc1234def5678'' ''feature''
       \<in> set (drop (length [GhPrList])
                [GhPrList, GhPrView 123, GhPrCheckout 10,
                 GitRebaseOnto ''origin/main'' ''abc1234def5678'' ''feature''])" by simp
  have mu: "mutates (GitRebaseOnto ''origin/main'' ''abc1234def5678'' ''feature'')"
    by (simp add: mutates_def)
  from C8_mutates_only_if_merged [OF h m mu] h m mu show ?thesis by blast
qed

text \<open>
  C9. When the status command reports a change (its output is not empty), the run ends
  with a message, the one about the dirty branch or the one of a fatal error, and nothing
  but the status command has been run: no request is fetched, nothing reaches the network,
  nothing is checked out or rebased. When \<^verbatim>\<open>git\<close> is found and the status command
  succeeds, the message is the one about the dirty branch.
\<close>

theorem C9_dirty_aborts:
  assumes "Stdout (Run w [] GitStatus) \<noteq> []"
  shows "(fst (main w) = Dirty \<or> (\<exists>e. fst (main w) = Fatal e))
         \<and> set (snd (main w)) \<subseteq> {GitStatus}
         \<and> ((\<exists>gitPath. LookPath w [] ''git'' = Inr gitPath) \<and> RunErr (Run w [] GitStatus) = None
              \<longrightarrow> main w = (Dirty, [GitStatus]))"
  using assms
  by (auto simp: main_def IsCurrentBranchDirty_def run_def Let_def
           split: sum.splits option.splits)

theorem C9_dirty_aborts_witness:
  "Stdout (Run world_F [] GitStatus) \<noteq> []
   \<and> (\<exists>gitPath. LookPath world_F [] ''git'' = Inr gitPath)
   \<and> RunErr (Run world_F [] GitStatus) = None
   \<and> main world_F = (Dirty, [GitStatus])"
proof -
  have h: "Stdout (Run world_F [] GitStatus) \<noteq> []" by code_simp
  have p: "LookPath world_F [] ''git'' = Inr ''/usr/bin/git''" by code_simp
  have e: "RunErr (Run world_F [] GitStatus) = None" by code_simp
  from C9_dirty_aborts [OF h] h p e show ?thesis by blast
qed

text \<open>
  C10. When the processing loop completes, an outcome has a nil error exactly when it
  carries the depended request, and the section of the report that lists the rebased
  requests, which reads number and URL through that pointer, produces its lines without
  a nil dereference.
\<close>

theorem C10_snapshot_iff_success:
  assumes "process_all w defaultBranch err prs [] tr = (Inr outs, tr')"
  shows "list_all (\<lambda>p. (Error p = None) = (DependedPullRequest p \<noteq> None)) outs
         \<and> (\<exists>ls. report_rebased outs = Inr ls)"
proof -
  have step: "\<And>pr tr p tr1. process w defaultBranch err pr tr = (Inr p, tr1)
      \<Longrightarrow> (Error p = None) = (DependedPullRequest p \<noteq> None)"
    by (auto dest: process_outcome)
  from process_all_outcomes
    [where P = "\<lambda>p. (Error p = None) = (DependedPullRequest p \<noteq> None)", OF step assms]
  have inv: "list_all (\<lambda>p. (Error p = None) = (DependedPullRequest p \<noteq> None)) outs"
    by auto
  with report_rebased_total show ?thesis by blast
qed

theorem C10_snapshot_iff_success_witness:
  "process_all world_mixed ''main'' None [pr11, pr10] [] []
     = (Inr [outcome pr11 [] None (Some ErrNoDependOn),
             outcome pr10 [123] (Some merged123) None],
        [GhPrView 123, GhPrCheckout 10,
         GitRebaseOnto ''origin/main'' ''abc1234def5678'' ''feature''])
   \<and> list_all (\<lambda>p. (Error p = None) = (DependedPullRequest p \<noteq> None))
        [outcome pr11 [] None (Some ErrNoDependOn), outcome pr10 [123] (Some merged123) None]
   \<and> (\<exists>ls. report_rebased
        [outcome pr11 [] None (Some ErrNoDependOn), outcome pr10 [123] (Some merged123) None]
          = Inr ls)"
proof -
  have h: "process_all world_mixed ''main'' None [pr11, pr10] [] []
     = (Inr [outcome pr11 [] None (Some ErrNoDependOn),
             outcome pr10 [123] (Some merged123) None],
        [GhPrView 123, GhPrCheckout 10,
         GitRebaseOnto ''origin/main'' ''abc1234def5678'' ''feature''])"
    by code_simp
  from C10_snapshot_iff_success [OF h] h show ?thesis by blast
qed

end
